theory Spec2Isabelle
  imports Main "HOL-Library.Sublist"
begin

section \<open>The OpenTelemetry query hook of pgext (otel.go)\<close>

text \<open>
  A shallow embedding of \<^verbatim>\<open>otel.go\<close>: the two hook methods \<^verbatim>\<open>BeforeQuery\<close> and
  \<^verbatim>\<open>AfterQuery\<close> of \<^verbatim>\<open>OpenTelemetryHook\<close> and the helper \<^verbatim>\<open>funcFileLine\<close>.

  Go strings are byte sequences and \<^verbatim>\<open>len\<close>, slicing and \<^verbatim>\<open>IndexByte\<close> count bytes;
  they are modelled by \<^typ>\<open>string\<close>, whose characters are bytes. Go's \<^verbatim>\<open>int\<close> is
  modelled by \<^typ>\<open>int\<close>: the program does no arithmetic on the row counts and line numbers
  it passes on, and the indices it computes are bounded by string lengths.
\<close>

subsection \<open>The functions of package strings that the program calls\<close>

text \<open>\<^verbatim>\<open>strings.IndexByte(s, c)\<close>: the index of the first byte \<open>c\<close> of \<open>s\<close>, or \<open>-1\<close>.\<close>

fun IndexByte :: "string \<Rightarrow> char \<Rightarrow> int" where
  "IndexByte [] c = - 1"
| "IndexByte (x # xs) c =
     (if x = c then 0
      else (let i = IndexByte xs c in if i < 0 then - 1 else i + 1))"

text \<open>
  \<^verbatim>\<open>strings.LastIndexByte(s, c)\<close>: the loop
  \<^verbatim>\<open>for i := len(s) - 1; i >= 0; i-- { if s[i] == c { return i } }; return -1\<close>,
  with the number of bytes still to visit as the recursion argument.
\<close>

fun lastIndexFrom :: "string \<Rightarrow> char \<Rightarrow> nat \<Rightarrow> int" where
  "lastIndexFrom s c 0 = - 1"
| "lastIndexFrom s c (Suc i) = (if s ! i = c then int i else lastIndexFrom s c i)"

definition LastIndexByte :: "string \<Rightarrow> char \<Rightarrow> int" where
  "LastIndexByte s c = lastIndexFrom s c (length s)"

text \<open>\<^verbatim>\<open>strings.Contains(s, substr)\<close>: whether \<open>substr\<close> occurs in \<open>s\<close> at some offset.\<close>

fun Contains :: "string \<Rightarrow> string \<Rightarrow> bool" where
  "Contains [] substr = (substr = [])"
| "Contains (x # xs) substr = (prefix substr (x # xs) \<or> Contains xs substr)"

text \<open>
  \<^verbatim>\<open>strings.TrimSpace\<close> removes leading and trailing Unicode white space, which it finds by
  decoding UTF-8. The hook is modelled for any such function: \<^verbatim>\<open>AfterQuery\<close> takes it as its
  first argument. \<open>TrimSpace_ascii\<close> is what the library function computes on a string
  of ASCII bytes (its table \<^verbatim>\<open>asciiSpace\<close>: tab, newline, vertical tab, form feed, carriage
  return and space); the examples below instantiate the argument with it.
\<close>

definition asciiSpace :: "char \<Rightarrow> bool" where
  "asciiSpace c = (c \<in> set [CHR 0x09, CHR 0x0A, CHR 0x0B, CHR 0x0C, CHR 0x0D, CHR 0x20])"

definition TrimSpace_ascii :: "string \<Rightarrow> string" where
  "TrimSpace_ascii s = rev (dropWhile asciiSpace (rev (dropWhile asciiSpace s)))"

subsection \<open>Errors, results and the query event\<close>

text \<open>
  The values of Go's \<^verbatim>\<open>error\<close> that the program tells apart: \<^verbatim>\<open>pg.ErrNoRows\<close>,
  \<^verbatim>\<open>pg.ErrMultiRows\<close>, and every other error (with its message). A nil error is
  \<open>None\<close> of an option type.
\<close>

datatype error = ErrNoRows | ErrMultiRows | OtherError string

text \<open>\<^verbatim>\<open>orm.Result\<close>: the two methods the hook calls.\<close>

record Result =
  RowsAffected :: int
  RowsReturned :: int

text \<open>\<^verbatim>\<open>pg.Options\<close>: the three fields the hook reads.\<close>

record Options =
  Addr :: string
  User :: string
  Database :: string

text \<open>
  \<^verbatim>\<open>orm.QueryOp\<close> is a string type; \<^verbatim>\<open>orm.InsertOp\<close> is its constant \<^verbatim>\<open>"INSERT"\<close>.
\<close>

type_synonym QueryOp = string

definition InsertOp :: QueryOp where
  "InsertOp = ''INSERT''"

text \<open>
  \<^verbatim>\<open>pg.QueryEvent\<close>, as far as the hook reads it:
  \<^item> \<open>Query_Operation\<close>: \<open>Some op\<close> when \<^verbatim>\<open>evt.Query\<close> implements \<^verbatim>\<open>queryOperation\<close>
    and its \<^verbatim>\<open>Operation()\<close> returns \<open>op\<close>, \<open>None\<close> when the type assertion fails;
  \<^item> \<open>UnformattedQuery\<close>, \<open>FormattedQuery\<close>: what the two rendering methods return,
    \<open>Inl err\<close> for a non-nil error and \<open>Inr b\<close> for the bytes;
  \<^item> \<open>DB\<close>: \<open>Some opt\<close> when \<^verbatim>\<open>evt.DB\<close> is a \<^verbatim>\<open>*pg.DB\<close> whose \<^verbatim>\<open>Options()\<close> are \<open>opt\<close>;
  \<^item> \<open>Err\<close>, \<open>Result\<close>: \<open>None\<close> for nil.
\<close>

record QueryEvent =
  Query_Operation :: "QueryOp option"
  UnformattedQuery :: "error + string"
  FormattedQuery :: "error + string"
  DB :: "Options option"
  Err :: "error option"
  Result :: "Result option"

subsection \<open>Spans, the span store and contexts\<close>

text \<open>\<^verbatim>\<open>codes.Code\<close>: the two codes the hook sets, and the code of a span left alone.\<close>

datatype Code = OK | NotFound | Internal

text \<open>\<^verbatim>\<open>label.KeyValue\<close>, built by \<^verbatim>\<open>label.String\<close> and \<^verbatim>\<open>label.Int\<close>.\<close>

datatype label_Value = StringValue string | IntValue int

type_synonym KeyValue = "string \<times> label_Value"

definition label_String :: "string \<Rightarrow> string \<Rightarrow> KeyValue" where
  "label_String k v = (k, StringValue v)"

definition label_Int :: "string \<Rightarrow> int \<Rightarrow> KeyValue" where
  "label_Int k v = (k, IntValue v)"

text \<open>
  \<^verbatim>\<open>trace.Span\<close> is an interface of the tracing library. A span is modelled by what the
  hook can observe of it and do to it: whether it is recording, the name it was started
  with, and the log of the method calls made on it, oldest first.
\<close>

datatype span_call =
    SetName string
  | SetStatus Code string
  | RecordError error
  | SetAttributes "KeyValue list"
  | End

record Span =
  IsRecording :: bool
  startName :: string
  calls :: "span_call list"

text \<open>
  Spans are shared objects: the context holds a reference to one, and the hook mutates
  it through that reference. The store is the list of all spans started so far; a
  reference is an index into it. \<open>None\<close> is the no-op span that
  \<^verbatim>\<open>trace.SpanFromContext\<close> returns for a context without a span: it is not recording
  and ignores every call.
\<close>

type_synonym span_ref = "nat option"

type_synonym Spans = "Span list"

datatype Context = Context (ctx_span: span_ref)

definition SpanFromContext :: "Context \<Rightarrow> span_ref" where
  "SpanFromContext ctx = ctx_span ctx"

definition span_IsRecording :: "Spans \<Rightarrow> span_ref \<Rightarrow> bool" where
  "span_IsRecording st span =
     (case span of None \<Rightarrow> False | Some r \<Rightarrow> r < length st \<and> IsRecording (st ! r))"

definition span_calls :: "Spans \<Rightarrow> span_ref \<Rightarrow> span_call list" where
  "span_calls st span =
     (case span of None \<Rightarrow> [] | Some r \<Rightarrow> if r < length st then calls (st ! r) else [])"

definition span_call :: "span_ref \<Rightarrow> span_call \<Rightarrow> Spans \<Rightarrow> Spans" where
  "span_call span c st =
     (case span of
        None \<Rightarrow> st
      | Some r \<Rightarrow>
          if r < length st then st[r := (st ! r)\<lparr>calls := calls (st ! r) @ [c]\<rparr>] else st)"

text \<open>
  \<^verbatim>\<open>tracer.Start(ctx, name)\<close>: a new span enters the store and the returned context refers
  to it. Whether the new span records is the tracer's decision (its sampler, or no
  provider being registered); it is the argument \<open>sampled\<close>.
\<close>

definition tracer_Start :: "bool \<Rightarrow> Spans \<Rightarrow> Context \<Rightarrow> string \<Rightarrow> (Context \<times> span_ref) \<times> Spans" where
  "tracer_Start sampled st ctx name =
     ((Context (Some (length st)), Some (length st)),
      st @ [\<lparr>IsRecording = sampled, startName = name, calls = []\<rparr>])"

subsection \<open>funcFileLine\<close>

text \<open>\<^verbatim>\<open>runtime.Frame\<close>: the three fields the helper reads.\<close>

record Frame =
  Function :: string
  File :: string
  Line :: int

definition zeroFrame :: Frame where
  "zeroFrame = \<lparr>Function = '''', File = '''', Line = 0\<rparr>"

text \<open>
  The call stack is the list of the frames of the running goroutine, innermost first,
  beginning with the frame of \<^verbatim>\<open>runtime.Callers\<close> itself (the frame that \<^verbatim>\<open>skip = 0\<close>
  denotes). \<^verbatim>\<open>runtime.Callers(skip, pcs)\<close> fills \<^verbatim>\<open>pcs\<close> with at most \<^verbatim>\<open>len(pcs)\<close>
  program counters from frame \<open>skip\<close> on, and \<^verbatim>\<open>runtime.CallersFrames\<close> resolves them; one
  frame stands for each program counter.
\<close>

definition runtime_Callers :: "nat \<Rightarrow> nat \<Rightarrow> Frame list \<Rightarrow> Frame list" where
  "runtime_Callers skip n stack = take n (drop skip stack)"

text \<open>
  \<^verbatim>\<open>(*runtime.Frames).Next\<close> returns \<^verbatim>\<open>(frame Frame, more bool)\<close>. The runtime documents:
  ``If it has already returned all call frames, Next returns a zero Frame. The more
  result indicates whether the next call to Next will return a valid Frame. It does not
  necessarily indicate whether this call returned one.'' So the call that returns the
  last frame returns it with \<^verbatim>\<open>more = false\<close>. The second component of the result is
  the iterator after the call.
\<close>

fun Frames_Next :: "Frame list \<Rightarrow> (Frame \<times> bool) \<times> Frame list" where
  "Frames_Next [] = ((zeroFrame, False), [])"
| "Frames_Next (f # ff) = ((f, ff \<noteq> []), ff)"

text \<open>
  The \<^verbatim>\<open>for\<close> loop of \<^verbatim>\<open>funcFileLine\<close>, with the variables \<^verbatim>\<open>fn, file, line\<close> as the last
  argument. The loop binds the second result of \<^verbatim>\<open>Next\<close> to \<^verbatim>\<open>ok\<close> and leaves when it is
  false, before it assigns the frame.
\<close>

function funcFileLine_loop :: "string \<Rightarrow> Frame list \<Rightarrow> string \<times> string \<times> int \<Rightarrow> string \<times> string \<times> int" where
  "funcFileLine_loop pkg ff (fn, file, line) =
     (case Frames_Next ff of
        ((f, ok), ff') \<Rightarrow>
          if \<not> ok then (fn, file, line)
          else if \<not> Contains (Function f) pkg then (Function f, File f, Line f)
          else funcFileLine_loop pkg ff' (Function f, File f, Line f))"
  by pat_completeness auto
termination
  apply (relation "measure (\<lambda>(pkg, ff, acc). length ff)")
   apply simp
  subgoal for pkg ff fn fl ln x ff' f ok
    by (cases ff) auto
  done

declare funcFileLine_loop.simps [simp del]

definition depth :: nat where
  "depth = 16"

definition funcFileLine :: "string \<Rightarrow> Frame list \<Rightarrow> string \<times> string \<times> int" where
  "funcFileLine pkg stack =
     (let ff = runtime_Callers 3 depth stack;
          (fn, file, line) = funcFileLine_loop pkg ff ('''', '''', 0);
          ind = LastIndexByte fn (CHR ''/'');
          fn = (if ind \<noteq> - 1 then drop (nat (ind + 1)) fn else fn)
      in (fn, file, line))"

subsection \<open>BeforeQuery and AfterQuery\<close>

text \<open>
  The hooks read and change the span store, so each takes the store and returns it. What
  the program takes from its environment is an argument: the tracer's sampling decision
  for \<^verbatim>\<open>BeforeQuery\<close>; \<^verbatim>\<open>strings.TrimSpace\<close> and the call stack at the moment
  \<^verbatim>\<open>funcFileLine\<close> calls \<^verbatim>\<open>runtime.Callers\<close> for \<^verbatim>\<open>AfterQuery\<close>.
\<close>

definition BeforeQuery :: "bool \<Rightarrow> Spans \<Rightarrow> Context \<Rightarrow> QueryEvent \<Rightarrow> (Context \<times> error option) \<times> Spans" where
  "BeforeQuery sampled st ctx evt =
     (if \<not> span_IsRecording st (SpanFromContext ctx) then ((ctx, None), st)
      else (case tracer_Start sampled st ctx '''' of
              ((ctx', _), st') \<Rightarrow> ((ctx', None), st')))"

text \<open>
  Lines 43 to 47: the variable \<^verbatim>\<open>operation\<close> keeps its zero value, the empty string, unless
  the query reports an operation.
\<close>

definition operation_of :: "QueryEvent \<Rightarrow> QueryOp" where
  "operation_of evt = (case Query_Operation evt of Some v \<Rightarrow> v | None \<Rightarrow> '''')"

definition queryLimit :: nat where
  "queryLimit = 5000"

text \<open>
  Lines 64 to 71: the span is named after the operation, or else after the text before the
  first space of the query, cut at 20 bytes and trimmed; without a space it is not named.
\<close>

definition AfterQuery_name :: "(string \<Rightarrow> string) \<Rightarrow> span_ref \<Rightarrow> QueryOp \<Rightarrow> string \<Rightarrow> Spans \<Rightarrow> Spans" where
  "AfterQuery_name TrimSpace span operation query st =
     (if operation \<noteq> '''' then span_call span (SetName operation) st
      else (let idx = IndexByte query (CHR '' '') in
            if idx \<ge> 0 then
              (let idx = (if idx > 20 then 20 else idx)
               in span_call span (SetName (TrimSpace (take (nat idx) query))) st)
            else st))"

text \<open>Lines 73 to 76: the query text is cut at \<^verbatim>\<open>queryLimit\<close> bytes.\<close>

definition AfterQuery_truncate :: "string \<Rightarrow> string" where
  "AfterQuery_truncate query =
     (if length query > queryLimit then take queryLimit query else query)"

text \<open>
  Lines 80 to 97: the attributes of every span, and those of the connection when the
  event's handle is a \<^verbatim>\<open>*pg.DB\<close>.
\<close>

definition AfterQuery_attrs :: "QueryEvent \<Rightarrow> string \<Rightarrow> string \<times> string \<times> int \<Rightarrow> KeyValue list" where
  "AfterQuery_attrs evt query loc =
     (case loc of
        (fn, file, line) \<Rightarrow>
          (let attrs = [label_String ''db.system'' ''postgres'',
                        label_String ''db.statement'' query,
                        label_String ''frame.func'' fn,
                        label_String ''frame.file'' file,
                        label_Int ''frame.line'' line]
           in (case DB evt of
                 Some opt \<Rightarrow>
                   attrs @ [label_String ''db.connection_string'' (Addr opt),
                            label_String ''db.user'' (User opt),
                            label_String ''db.name'' (Database opt)]
               | None \<Rightarrow> attrs)))"

text \<open>
  Lines 99 to 113: the outcome of the query. An error sets the status, and is recorded
  unless it is one of the two row-count errors; a result without an error adds the row
  count to the attributes.
\<close>

definition AfterQuery_outcome :: "span_ref \<Rightarrow> QueryEvent \<Rightarrow> KeyValue list \<Rightarrow> Spans \<Rightarrow> Spans \<times> KeyValue list" where
  "AfterQuery_outcome span evt attrs st =
     (case Err evt of
        Some err \<Rightarrow>
          if err = ErrNoRows \<or> err = ErrMultiRows
          then (span_call span (SetStatus NotFound '''') st, attrs)
          else (span_call span (RecordError err)
                  (span_call span (SetStatus Internal '''') st), attrs)
      | None \<Rightarrow>
          (case Result evt of
             Some res \<Rightarrow>
               (let numRow = RowsAffected res;
                    numRow = (if numRow = 0 then RowsReturned res else numRow)
                in (st, attrs @ [label_Int ''db.rows_affected'' numRow]))
           | None \<Rightarrow> (st, attrs)))"

text \<open>
  Lines 64 to 117, which run once the query text is rendered: the steps above in the
  order of the source, then \<^verbatim>\<open>SetAttributes\<close> and the return of a nil error.
\<close>

definition AfterQuery_finish :: "(string \<Rightarrow> string) \<Rightarrow> Frame list \<Rightarrow> span_ref \<Rightarrow> QueryEvent \<Rightarrow> QueryOp \<Rightarrow> string \<Rightarrow> Spans \<Rightarrow> error option \<times> Spans" where
  "AfterQuery_finish TrimSpace stack span evt operation query st =
     (let st = AfterQuery_name TrimSpace span operation query st;
          query = AfterQuery_truncate query;
          loc = funcFileLine ''github.com/go-pg/pg'' stack;
          attrs = AfterQuery_attrs evt query loc;
          (st, attrs) = AfterQuery_outcome span evt attrs st
      in (None, span_call span (SetAttributes attrs) st))"

text \<open>
  Lines 43 to 62 and on: the operation, the rendering that the operation selects, the
  early return of a rendering error, and otherwise the rest of the function.
\<close>

definition AfterQuery_body :: "(string \<Rightarrow> string) \<Rightarrow> Frame list \<Rightarrow> span_ref \<Rightarrow> QueryEvent \<Rightarrow> Spans \<Rightarrow> error option \<times> Spans" where
  "AfterQuery_body TrimSpace stack span evt st =
     (let operation = operation_of evt in
      if operation = InsertOp then
        (case UnformattedQuery evt of
           Inl err \<Rightarrow> (Some err, st)
         | Inr b \<Rightarrow> AfterQuery_finish TrimSpace stack span evt operation b st)
      else
        (case FormattedQuery evt of
           Inl err \<Rightarrow> (Some err, st)
         | Inr b \<Rightarrow> AfterQuery_finish TrimSpace stack span evt operation b st))"

text \<open>
  \<^verbatim>\<open>AfterQuery\<close>: the recording test of lines 37 to 40, and \<^verbatim>\<open>defer span.End()\<close>, which
  runs \<^verbatim>\<open>End\<close> after the body has returned, whichever \<^verbatim>\<open>return\<close> it left by.
\<close>

definition AfterQuery :: "(string \<Rightarrow> string) \<Rightarrow> Frame list \<Rightarrow> Spans \<Rightarrow> Context \<Rightarrow> QueryEvent \<Rightarrow> error option \<times> Spans" where
  "AfterQuery TrimSpace stack st ctx evt =
     (let span = SpanFromContext ctx in
      if \<not> span_IsRecording st span then (None, st)
      else (case AfterQuery_body TrimSpace stack span evt st of
              (err, st') \<Rightarrow> (err, span_call span End st')))"

subsection \<open>What a call of AfterQuery did to the span\<close>

text \<open>
  The rendering that lines 49 to 62 ask the event for: the unformatted query for an insert,
  the formatted query otherwise.
\<close>

definition rendering :: "QueryEvent \<Rightarrow> error + string" where
  "rendering evt =
     (if operation_of evt = InsertOp then UnformattedQuery evt else FormattedQuery evt)"

text \<open>
  The calls that one invocation of \<^verbatim>\<open>AfterQuery\<close> made on the span of its context: the
  span's log after the invocation, without the entries it had before.
\<close>

definition AfterQuery_calls :: "(string \<Rightarrow> string) \<Rightarrow> Frame list \<Rightarrow> Spans \<Rightarrow> Context \<Rightarrow> QueryEvent \<Rightarrow> span_call list" where
  "AfterQuery_calls TrimSpace stack st ctx evt =
     drop (length (span_calls st (SpanFromContext ctx)))
       (span_calls (snd (AfterQuery TrimSpace stack st ctx evt)) (SpanFromContext ctx))"

text \<open>
  Readings of a log of calls: the names set, the statuses set, the errors recorded, the
  attributes attached, and the values attached under one key.
\<close>

fun names_set :: "span_call list \<Rightarrow> string list" where
  "names_set [] = []"
| "names_set (SetName n # cs) = n # names_set cs"
| "names_set (_ # cs) = names_set cs"

fun statuses_set :: "span_call list \<Rightarrow> (Code \<times> string) list" where
  "statuses_set [] = []"
| "statuses_set (SetStatus c m # cs) = (c, m) # statuses_set cs"
| "statuses_set (_ # cs) = statuses_set cs"

fun errors_recorded :: "span_call list \<Rightarrow> error list" where
  "errors_recorded [] = []"
| "errors_recorded (RecordError e # cs) = e # errors_recorded cs"
| "errors_recorded (_ # cs) = errors_recorded cs"

fun attributes_set :: "span_call list \<Rightarrow> KeyValue list" where
  "attributes_set [] = []"
| "attributes_set (SetAttributes kvs # cs) = kvs @ attributes_set cs"
| "attributes_set (_ # cs) = attributes_set cs"

definition values_of :: "string \<Rightarrow> KeyValue list \<Rightarrow> label_Value list" where
  "values_of k kvs = map snd (filter (\<lambda>kv. fst kv = k) kvs)"

subsection \<open>The resolver as the specification describes it\<close>

text \<open>
  The specification's reading of the loop of \<^verbatim>\<open>funcFileLine\<close>, for comparison with the
  loop of the source: of the captured frames, innermost first, the first one whose function
  name does not contain the namespace, or the outermost one when every name contains it.
  \<open>None\<close> stands for ``no frame was captured''.
\<close>

definition spec_locate :: "string \<Rightarrow> Frame list \<Rightarrow> Frame option" where
  "spec_locate pkg ff =
     (case find (\<lambda>f. \<not> Contains (Function f) pkg) ff of
        Some f \<Rightarrow> Some f
      | None \<Rightarrow> if ff = [] then None else Some (last ff))"

subsection \<open>Example inputs\<close>

text \<open>
  A store with the span of a request and, under it, the span that \<^verbatim>\<open>BeforeQuery\<close> started
  for a query; it also holds a span that was sampled out. \<open>ctx_query\<close> carries the
  query's span, \<open>ctx_dropped\<close> the span that does not record, \<open>ctx_plain\<close> no span.
\<close>

definition st0 :: Spans where
  "st0 = [\<lparr>IsRecording = True, startName = ''GET /orders'', calls = [SetName ''orders'']\<rparr>,
          \<lparr>IsRecording = True, startName = '''', calls = []\<rparr>,
          \<lparr>IsRecording = False, startName = '''', calls = []\<rparr>]"

definition ctx_query :: Context where
  "ctx_query = Context (Some 1)"

definition ctx_dropped :: Context where
  "ctx_dropped = Context (Some 2)"

definition ctx_plain :: Context where
  "ctx_plain = Context None"

text \<open>
  A call stack at the moment \<^verbatim>\<open>funcFileLine\<close> calls \<^verbatim>\<open>runtime.Callers\<close>: the three frames
  that are skipped, two frames of the ORM, and the application.
\<close>

definition stack0 :: "Frame list" where
  "stack0 =
     [\<lparr>Function = ''runtime.Callers'', File = ''extern.go'', Line = 247\<rparr>,
      \<lparr>Function = ''github.com/NathanBaulch/pgext.funcFileLine'', File = ''otel.go'', Line = 123\<rparr>,
      \<lparr>Function = ''github.com/NathanBaulch/pgext.OpenTelemetryHook.AfterQuery'', File = ''otel.go'', Line = 78\<rparr>,
      \<lparr>Function = ''github.com/go-pg/pg/v10.(*baseDB).afterQuery'', File = ''hook.go'', Line = 130\<rparr>,
      \<lparr>Function = ''github.com/go-pg/pg/v10.(*baseDB).exec'', File = ''base.go'', Line = 231\<rparr>,
      \<lparr>Function = ''example.com/shop/store.(*Orders).Load'', File = ''orders.go'', Line = 42\<rparr>,
      \<lparr>Function = ''main.main'', File = ''main.go'', Line = 17\<rparr>,
      \<lparr>Function = ''runtime.main'', File = ''proc.go'', Line = 204\<rparr>,
      \<lparr>Function = ''runtime.goexit'', File = ''asm_amd64.s'', Line = 1374\<rparr>]"

text \<open>
  A deeper stack: fifteen frames of the ORM lie between the hook and the application, so
  the application's frame is the sixteenth and last frame that \<^verbatim>\<open>runtime.Callers\<close>
  captures.
\<close>

definition stack_deep :: "Frame list" where
  "stack_deep =
     [\<lparr>Function = ''runtime.Callers'', File = ''extern.go'', Line = 247\<rparr>,
      \<lparr>Function = ''github.com/NathanBaulch/pgext.funcFileLine'', File = ''otel.go'', Line = 123\<rparr>,
      \<lparr>Function = ''github.com/NathanBaulch/pgext.OpenTelemetryHook.AfterQuery'', File = ''otel.go'', Line = 78\<rparr>,
      \<lparr>Function = ''github.com/go-pg/pg/v10.(*baseDB).afterQuery'', File = ''hook.go'', Line = 130\<rparr>,
      \<lparr>Function = ''github.com/go-pg/pg/v10.(*baseDB).exec'', File = ''base.go'', Line = 231\<rparr>] @
     replicate 13 \<lparr>Function = ''github.com/go-pg/pg/v10/orm.walk'', File = ''util.go'', Line = 88\<rparr> @
     [\<lparr>Function = ''example.com/shop/store.(*Orders).Load'', File = ''orders.go'', Line = 42\<rparr>,
      \<lparr>Function = ''main.main'', File = ''main.go'', Line = 17\<rparr>,
      \<lparr>Function = ''runtime.main'', File = ''proc.go'', Line = 204\<rparr>,
      \<lparr>Function = ''runtime.goexit'', File = ''asm_amd64.s'', Line = 1374\<rparr>]"

text \<open>
  Events: a select that returned three rows, sent as plain SQL (its query reports no
  operation); the same select ending in each of three errors; a query whose text has no
  space; a query whose first space comes after more than 20 bytes; an insert with one
  bound value; an insert whose unformatted text is 5023 bytes long; and two queries whose
  text cannot be rendered.
\<close>

definition evt_select :: QueryEvent where
  "evt_select =
     \<lparr>Query_Operation = None,
      UnformattedQuery = Inr ''SELECT * FROM orders WHERE id = ?'',
      FormattedQuery = Inr ''SELECT * FROM orders WHERE id = 7'',
      DB = Some \<lparr>Addr = ''localhost:5432'', User = ''app'', Database = ''shop''\<rparr>,
      Err = None,
      Result = Some \<lparr>RowsAffected = 0, RowsReturned = 3\<rparr>\<rparr>"

definition evt_norows :: QueryEvent where
  "evt_norows = evt_select\<lparr>Err := Some ErrNoRows, Result := None\<rparr>"

definition evt_multirows :: QueryEvent where
  "evt_multirows = evt_select\<lparr>Err := Some ErrMultiRows, Result := None\<rparr>"

definition evt_refused :: QueryEvent where
  "evt_refused = evt_select\<lparr>Err := Some (OtherError ''connection refused''), Result := None\<rparr>"

definition evt_begin :: QueryEvent where
  "evt_begin =
     \<lparr>Query_Operation = None,
      UnformattedQuery = Inr ''BEGIN'',
      FormattedQuery = Inr ''BEGIN'',
      DB = None,
      Err = None,
      Result = None\<rparr>"

definition evt_vacuum :: QueryEvent where
  "evt_vacuum =
     \<lparr>Query_Operation = None,
      UnformattedQuery = Inr ''VACUUM(FULL,ANALYZE,VERBOSE) orders'',
      FormattedQuery = Inr ''VACUUM(FULL,ANALYZE,VERBOSE) orders'',
      DB = None,
      Err = None,
      Result = None\<rparr>"

definition evt_insert :: QueryEvent where
  "evt_insert =
     \<lparr>Query_Operation = Some ''INSERT'',
      UnformattedQuery = Inr ''INSERT INTO orders (qty) VALUES (?)'',
      FormattedQuery = Inr ''INSERT INTO orders (qty) VALUES (2)'',
      DB = None,
      Err = None,
      Result = Some \<lparr>RowsAffected = 1, RowsReturned = 0\<rparr>\<rparr>"

definition long_query :: string where
  "long_query = ''INSERT INTO t VALUES ('' @ replicate 5000 (CHR ''?'') @ '')''"

definition evt_long :: QueryEvent where
  "evt_long = evt_insert\<lparr>UnformattedQuery := Inr long_query\<rparr>"

definition evt_broken :: QueryEvent where
  "evt_broken = evt_select\<lparr>FormattedQuery := Inl (OtherError ''pg: cannot format query'')\<rparr>"

definition evt_broken_insert :: QueryEvent where
  "evt_broken_insert =
     evt_insert\<lparr>UnformattedQuery := Inl (OtherError ''pg: cannot render query'')\<rparr>"

section \<open>Properties\<close>

subsection \<open>The string functions\<close>

lemma IndexByte_ge: "- 1 \<le> IndexByte s c"
  by (induction s) (auto simp: Let_def)

lemma IndexByte_absent: "IndexByte s c < 0 \<longleftrightarrow> c \<notin> set s"
proof (induction s)
  case Nil
  show ?case by simp
next
  case (Cons a s)
  with IndexByte_ge [of s c] show ?case
    by (auto simp: Let_def)
qed

lemma IndexByte_takeWhile:
  "c \<in> set s \<Longrightarrow> IndexByte s c = int (length (takeWhile (\<lambda>x. x \<noteq> c) s))"
  by (induction s) (auto simp: Let_def IndexByte_absent)

lemma take_capped: "take (min (length (takeWhile P xs)) n) xs = take n (takeWhile P xs)"
proof -
  have "take n (takeWhile P xs) = take n (take (length (takeWhile P xs)) xs)"
    using takeWhile_eq_take [of P xs] by simp
  then show ?thesis by (simp add: min.commute)
qed

text \<open>
  The slice \<^verbatim>\<open>query[:idx]\<close> of lines 66 to 70, with \<^verbatim>\<open>idx\<close> the capped index of the first
  \<open>c\<close>, is the text before the first \<open>c\<close>, cut at 20 bytes.
\<close>

lemma name_cut:
  assumes "c \<in> set q"
  shows "take (nat (if IndexByte q c > 20 then 20 else IndexByte q c)) q
       = take 20 (takeWhile (\<lambda>x. x \<noteq> c) q)"
proof -
  let ?n = "length (takeWhile (\<lambda>x. x \<noteq> c) q)"
  have "nat (if IndexByte q c > 20 then 20 else IndexByte q c) = min ?n 20"
    using IndexByte_takeWhile [OF assms] by auto
  then show ?thesis by (simp add: take_capped)
qed

lemma lastIndexFrom_absent:
  "n \<le> length s \<Longrightarrow> lastIndexFrom s c n = - 1 \<longleftrightarrow> c \<notin> set (take n s)"
  by (induction n) (auto simp: take_Suc_conv_app_nth)

lemma LastIndexByte_absent: "LastIndexByte s c = - 1 \<longleftrightarrow> c \<notin> set s"
  by (simp add: LastIndexByte_def lastIndexFrom_absent)

lemma lastIndexFrom_found:
  assumes "n \<le> length s" and "c \<in> set (take n s)"
  shows "\<exists>i<n. lastIndexFrom s c n = int i \<and> s ! i = c \<and> c \<notin> set (drop (Suc i) (take n s))"
  using assms
proof (induction n)
  case 0
  then show ?case by simp
next
  case (Suc n)
  show ?case
  proof (cases "s ! n = c")
    case True
    with Suc.prems show ?thesis by (auto intro!: exI [of _ n])
  next
    case False
    with Suc.prems have "c \<in> set (take n s)"
      by (auto simp: take_Suc_conv_app_nth)
    with Suc obtain i where i: "i < n" "lastIndexFrom s c n = int i" "s ! i = c"
      "c \<notin> set (drop (Suc i) (take n s))"
      by auto
    with False Suc.prems show ?thesis
      by (auto simp: take_Suc_conv_app_nth intro!: exI [of _ i])
  qed
qed

text \<open>
  The slice \<^verbatim>\<open>fn[ind+1:]\<close> of line 140 is what follows the last \<open>c\<close> of the string.
\<close>

lemma after_last_byte:
  assumes "c \<in> set s"
  shows "\<exists>pre. s = pre @ c # drop (nat (LastIndexByte s c + 1)) s \<and>
           c \<notin> set (drop (nat (LastIndexByte s c + 1)) s)"
proof -
  from lastIndexFrom_found [of "length s" s c] assms
  obtain i where i: "i < length s" "LastIndexByte s c = int i" "s ! i = c"
    "c \<notin> set (drop (Suc i) s)"
    by (auto simp: LastIndexByte_def)
  have "nat (LastIndexByte s c + 1) = Suc i"
    using i by simp
  moreover have "s = take i s @ c # drop (Suc i) s"
    using id_take_nth_drop [OF i(1)] unfolding i(3) .
  ultimately show ?thesis using i by metis
qed

lemma Contains_sublist: "Contains s sub \<longleftrightarrow> sublist sub s"
  by (induction s) (auto simp: sublist_Cons_right)

subsection \<open>The loop of funcFileLine\<close>

lemma funcFileLine_loop_Nil: "funcFileLine_loop pkg [] acc = acc"
  by (cases acc) (simp add: funcFileLine_loop.simps)

lemma funcFileLine_loop_single: "funcFileLine_loop pkg [f] acc = acc"
  by (cases acc) (simp add: funcFileLine_loop.simps)

lemma funcFileLine_loop_Cons:
  "funcFileLine_loop pkg (f # g # ff) acc =
     (if \<not> Contains (Function f) pkg then (Function f, File f, Line f)
      else funcFileLine_loop pkg (g # ff) (Function f, File f, Line f))"
  by (cases acc) (simp add: funcFileLine_loop.simps)

text \<open>
  The loop of the source does what the specification describes on the captured frames
  without the last of them: the frame that \<^verbatim>\<open>Next\<close> returns together with
  \<^verbatim>\<open>more = false\<close> is never assigned.
\<close>

lemma funcFileLine_loop_butlast:
  "funcFileLine_loop pkg ff acc =
     (case spec_locate pkg (butlast ff) of
        None \<Rightarrow> acc
      | Some f \<Rightarrow> (Function f, File f, Line f))"
proof (induction ff arbitrary: acc rule: induct_list012)
  case 1
  show ?case by (simp add: funcFileLine_loop_Nil spec_locate_def)
next
  case (2 f)
  show ?case by (simp add: funcFileLine_loop_single spec_locate_def)
next
  case (3 f g ff)
  show ?case
    by (simp add: funcFileLine_loop_Cons "3.IH"(2) spec_locate_def split: option.splits)
qed

text \<open>
  \<^verbatim>\<open>funcFileLine\<close> as a whole: the specification's resolver on the captured frames without
  the last one, the function name cut after its last slash; the zero values when that
  leaves no frame.
\<close>

lemma funcFileLine_butlast:
  "funcFileLine pkg stack =
     (case spec_locate pkg (butlast (runtime_Callers 3 depth stack)) of
        None \<Rightarrow> ('''', '''', 0)
      | Some f \<Rightarrow>
          (if CHR ''/'' \<in> set (Function f)
           then drop (nat (LastIndexByte (Function f) (CHR ''/'') + 1)) (Function f)
           else Function f,
           File f, Line f))"
  by (simp add: funcFileLine_def funcFileLine_loop_butlast LastIndexByte_absent Let_def
      split: option.splits)

subsection \<open>Calls on a span\<close>

lemma span_IsRecording_span_call [simp]:
  "span_IsRecording (span_call span' c st) span = span_IsRecording st span"
  by (auto simp: span_IsRecording_def span_call_def nth_list_update split: option.splits)

lemma span_calls_span_call [simp]:
  "span_IsRecording st span \<Longrightarrow> span_calls (span_call span c st) span = span_calls st span @ [c]"
  by (auto simp: span_IsRecording_def span_call_def span_calls_def split: option.splits)

lemma names_set_append [simp]: "names_set (xs @ ys) = names_set xs @ names_set ys"
  by (induction xs rule: names_set.induct) simp_all

lemma statuses_set_append [simp]: "statuses_set (xs @ ys) = statuses_set xs @ statuses_set ys"
  by (induction xs rule: statuses_set.induct) simp_all

lemma errors_recorded_append [simp]:
  "errors_recorded (xs @ ys) = errors_recorded xs @ errors_recorded ys"
  by (induction xs rule: errors_recorded.induct) simp_all

lemma attributes_set_append [simp]:
  "attributes_set (xs @ ys) = attributes_set xs @ attributes_set ys"
  by (induction xs rule: attributes_set.induct) simp_all

lemma values_of_append [simp]: "values_of k (xs @ ys) = values_of k xs @ values_of k ys"
  by (simp add: values_of_def)

lemma values_of_Nil [simp]: "values_of k [] = []"
  by (simp add: values_of_def)

lemma values_of_Cons [simp]:
  "values_of k ((k', v) # kvs) = (if k' = k then v # values_of k kvs else values_of k kvs)"
  by (simp add: values_of_def)

subsection \<open>The steps of AfterQuery\<close>

lemma AfterQuery_name_recording [simp]:
  "span_IsRecording (AfterQuery_name T span' op q st) span = span_IsRecording st span"
  by (simp add: AfterQuery_name_def Let_def)

lemma AfterQuery_name_calls:
  assumes "span_IsRecording st span"
  shows "span_calls (AfterQuery_name T span op q st) span = span_calls st span @
           (if op \<noteq> '''' then [SetName op]
            else if CHR '' '' \<in> set q
              then [SetName (T (take 20 (takeWhile (\<lambda>c. c \<noteq> CHR '' '') q)))]
              else [])"
proof (cases "CHR '' '' \<in> set q")
  case True
  then have "\<not> IndexByte q (CHR '' '') < 0"
    by (simp add: IndexByte_absent)
  with assms True show ?thesis
    using name_cut [OF True] by (simp add: AfterQuery_name_def Let_def)
next
  case False
  then have "IndexByte q (CHR '' '') < 0"
    by (simp add: IndexByte_absent)
  with assms False show ?thesis
    by (simp add: AfterQuery_name_def Let_def)
qed

lemma AfterQuery_truncate_take: "AfterQuery_truncate q = take 5000 q"
  by (simp add: AfterQuery_truncate_def queryLimit_def)

lemma AfterQuery_outcome_recording [simp]:
  "span_IsRecording (fst (AfterQuery_outcome span' evt attrs st)) span = span_IsRecording st span"
  by (simp add: AfterQuery_outcome_def Let_def split: option.splits)

lemma AfterQuery_outcome_calls:
  assumes "span_IsRecording st span"
  shows "span_calls (fst (AfterQuery_outcome span evt attrs st)) span = span_calls st span @
           (case Err evt of
              None \<Rightarrow> []
            | Some e \<Rightarrow>
                if e = ErrNoRows \<or> e = ErrMultiRows then [SetStatus NotFound '''']
                else [SetStatus Internal '''', RecordError e])"
  using assms by (simp add: AfterQuery_outcome_def Let_def split: option.splits)

lemma AfterQuery_outcome_attrs:
  "snd (AfterQuery_outcome span evt attrs st) = attrs @
     (case Err evt of
        Some e \<Rightarrow> []
      | None \<Rightarrow>
          (case Result evt of
             None \<Rightarrow> []
           | Some res \<Rightarrow>
               [label_Int ''db.rows_affected''
                  (if RowsAffected res = 0 then RowsReturned res else RowsAffected res)]))"
  by (simp add: AfterQuery_outcome_def Let_def split: option.splits)

lemma values_of_statement:
  "values_of ''db.statement'' (AfterQuery_attrs evt query loc) = [StringValue query]"
  by (cases loc)
    (simp add: AfterQuery_attrs_def Let_def label_String_def label_Int_def split: option.splits)

lemma values_of_rows_affected:
  "values_of ''db.rows_affected'' (AfterQuery_attrs evt query loc) = []"
  by (cases loc)
    (simp add: AfterQuery_attrs_def Let_def label_String_def label_Int_def split: option.splits)

lemma AfterQuery_finish_nil: "fst (AfterQuery_finish T stack span evt op q st) = None"
  by (simp add: AfterQuery_finish_def Let_def split_beta)

lemma AfterQuery_finish_recording [simp]:
  "span_IsRecording (snd (AfterQuery_finish T stack span' evt op q st)) span
     = span_IsRecording st span"
  by (simp add: AfterQuery_finish_def Let_def split_beta)

lemma AfterQuery_finish_calls:
  assumes "span_IsRecording st span"
  shows "span_calls (snd (AfterQuery_finish T stack span evt op q st)) span =
           span_calls (fst (AfterQuery_outcome span evt
               (AfterQuery_attrs evt (AfterQuery_truncate q)
                  (funcFileLine ''github.com/go-pg/pg'' stack))
               (AfterQuery_name T span op q st))) span @
           [SetAttributes (snd (AfterQuery_outcome span evt
               (AfterQuery_attrs evt (AfterQuery_truncate q)
                  (funcFileLine ''github.com/go-pg/pg'' stack))
               (AfterQuery_name T span op q st)))]"
  using assms by (simp add: AfterQuery_finish_def Let_def split_beta)

subsection \<open>AfterQuery on a recording span\<close>

lemma AfterQuery_recording:
  "span_IsRecording st (SpanFromContext ctx) \<Longrightarrow>
   AfterQuery T stack st ctx evt =
     (case rendering evt of
        Inl err \<Rightarrow> (Some err, span_call (SpanFromContext ctx) End st)
      | Inr q \<Rightarrow>
          (None,
           span_call (SpanFromContext ctx) End
             (snd (AfterQuery_finish T stack (SpanFromContext ctx) evt (operation_of evt) q st))))"
  using AfterQuery_finish_nil [of T stack "SpanFromContext ctx" evt "operation_of evt" _ st]
  by (auto simp add: AfterQuery_def AfterQuery_body_def rendering_def Let_def split_beta
      split: sum.splits)

text \<open>The calls of an invocation that rendered the query, in the order they were made.\<close>

lemma AfterQuery_calls_rendered:
  assumes "span_IsRecording st (SpanFromContext ctx)" and "rendering evt = Inr q"
  shows "AfterQuery_calls T stack st ctx evt =
           (if operation_of evt \<noteq> '''' then [SetName (operation_of evt)]
            else if CHR '' '' \<in> set q
              then [SetName (T (take 20 (takeWhile (\<lambda>c. c \<noteq> CHR '' '') q)))]
              else []) @
           (case Err evt of
              None \<Rightarrow> []
            | Some e \<Rightarrow>
                if e = ErrNoRows \<or> e = ErrMultiRows then [SetStatus NotFound '''']
                else [SetStatus Internal '''', RecordError e]) @
           [SetAttributes
              (AfterQuery_attrs evt (take 5000 q) (funcFileLine ''github.com/go-pg/pg'' stack) @
               (case Err evt of
                  Some e \<Rightarrow> []
                | None \<Rightarrow>
                    (case Result evt of
                       None \<Rightarrow> []
                     | Some res \<Rightarrow>
                         [label_Int ''db.rows_affected''
                            (if RowsAffected res = 0 then RowsReturned res
                             else RowsAffected res)]))),
            End]"
  using assms
  by (simp add: AfterQuery_calls_def AfterQuery_recording AfterQuery_finish_calls
      AfterQuery_outcome_calls AfterQuery_outcome_attrs AfterQuery_name_calls
      AfterQuery_truncate_take)

lemma AfterQuery_calls_failed:
  assumes "span_IsRecording st (SpanFromContext ctx)" and "rendering evt = Inl e"
  shows "AfterQuery_calls T stack st ctx evt = [End]"
  using assms by (simp add: AfterQuery_calls_def AfterQuery_recording)

text \<open>
  An invocation only appends to the log of its span, so \<open>AfterQuery_calls\<close> is all it
  did to the span.
\<close>

lemma AfterQuery_calls_extend:
  "span_calls (snd (AfterQuery T stack st ctx evt)) (SpanFromContext ctx) =
     span_calls st (SpanFromContext ctx) @ AfterQuery_calls T stack st ctx evt"
proof (cases "span_IsRecording st (SpanFromContext ctx)")
  case True
  then show ?thesis
    by (cases "rendering evt")
      (simp_all add: AfterQuery_calls_def AfterQuery_recording AfterQuery_finish_calls
        AfterQuery_outcome_calls AfterQuery_name_calls)
next
  case False
  then show ?thesis
    by (simp add: AfterQuery_calls_def AfterQuery_def)
qed

subsection \<open>The example inputs\<close>

lemma st0_recording:
  "span_IsRecording st0 (SpanFromContext ctx_query)"
  "\<not> span_IsRecording st0 (SpanFromContext ctx_dropped)"
  "\<not> span_IsRecording st0 (SpanFromContext ctx_plain)"
  by (simp_all add: span_IsRecording_def SpanFromContext_def st0_def ctx_query_def
      ctx_dropped_def ctx_plain_def)

lemma length_long_query: "length long_query = 5023"
  by (simp add: long_query_def)

section \<open>The claims\<close>

text \<open>
  In the theorems below, \<open>span_IsRecording st (SpanFromContext ctx)\<close> says that the
  invocation passed the test of line 38, and \<open>rendering evt = Inr q\<close> that the
  rendering of lines 49 to 62 succeeded with the text \<open>q\<close>, so that the lines from 64 on
  are reached. They hold for every function given for \<^verbatim>\<open>strings.TrimSpace\<close> and every
  call stack.
\<close>

text \<open>
  C1. When the completed event carries an error and the outcome handling of lines 99 to
  106 is reached: for \<^verbatim>\<open>pg.ErrNoRows\<close> and \<^verbatim>\<open>pg.ErrMultiRows\<close> the status of the span is
  set to \<open>NotFound\<close> and no error is recorded on the span; for every other error the
  status is set to \<open>Internal\<close> and the error is recorded.
\<close>

theorem AfterQuery_error_status:
  assumes "span_IsRecording st (SpanFromContext ctx)"
    and "rendering evt = Inr q"
    and "Err evt = Some e"
  shows "(e = ErrNoRows \<or> e = ErrMultiRows \<longrightarrow>
           statuses_set (AfterQuery_calls TrimSpace stack st ctx evt) = [(NotFound, '''')] \<and>
           errors_recorded (AfterQuery_calls TrimSpace stack st ctx evt) = []) \<and>
         (e \<noteq> ErrNoRows \<and> e \<noteq> ErrMultiRows \<longrightarrow>
           statuses_set (AfterQuery_calls TrimSpace stack st ctx evt) = [(Internal, '''')] \<and>
           errors_recorded (AfterQuery_calls TrimSpace stack st ctx evt) = [e])"
  using assms by (simp add: AfterQuery_calls_rendered)

theorem AfterQuery_error_status_witness:
  "span_IsRecording st0 (SpanFromContext ctx_query) \<and>
   rendering evt_norows = Inr ''SELECT * FROM orders WHERE id = 7'' \<and>
   Err evt_norows = Some ErrNoRows \<and>
   statuses_set (AfterQuery_calls TrimSpace_ascii stack0 st0 ctx_query evt_norows)
     = [(NotFound, '''')] \<and>
   errors_recorded (AfterQuery_calls TrimSpace_ascii stack0 st0 ctx_query evt_norows) = [] \<and>
   rendering evt_multirows = Inr ''SELECT * FROM orders WHERE id = 7'' \<and>
   Err evt_multirows = Some ErrMultiRows \<and>
   statuses_set (AfterQuery_calls TrimSpace_ascii stack0 st0 ctx_query evt_multirows)
     = [(NotFound, '''')] \<and>
   errors_recorded (AfterQuery_calls TrimSpace_ascii stack0 st0 ctx_query evt_multirows) = [] \<and>
   rendering evt_refused = Inr ''SELECT * FROM orders WHERE id = 7'' \<and>
   Err evt_refused = Some (OtherError ''connection refused'') \<and>
   statuses_set (AfterQuery_calls TrimSpace_ascii stack0 st0 ctx_query evt_refused)
     = [(Internal, '''')] \<and>
   errors_recorded (AfterQuery_calls TrimSpace_ascii stack0 st0 ctx_query evt_refused)
     = [OtherError ''connection refused'']"
proof -
  have r: "span_IsRecording st0 (SpanFromContext ctx_query)"
    by (rule st0_recording)
  have q: "rendering evt_norows = Inr ''SELECT * FROM orders WHERE id = 7''"
    "rendering evt_multirows = Inr ''SELECT * FROM orders WHERE id = 7''"
    "rendering evt_refused = Inr ''SELECT * FROM orders WHERE id = 7''"
    by (simp_all add: rendering_def operation_of_def InsertOp_def evt_norows_def
        evt_multirows_def evt_refused_def evt_select_def)
  have e: "Err evt_norows = Some ErrNoRows" "Err evt_multirows = Some ErrMultiRows"
    "Err evt_refused = Some (OtherError ''connection refused'')"
    by (simp_all add: evt_norows_def evt_multirows_def evt_refused_def)
  show ?thesis
    using r q e
      AfterQuery_error_status [OF r q(1) e(1), of TrimSpace_ascii stack0]
      AfterQuery_error_status [OF r q(2) e(2), of TrimSpace_ascii stack0]
      AfterQuery_error_status [OF r q(3) e(3), of TrimSpace_ascii stack0]
    by simp
qed

text \<open>
  C2, as stated: for an insert the statement text attached to the span equals the
  unformatted rendering of the query, and for every other operation the formatted
  rendering. It fails for a rendering of more than 5000 bytes, which lines 73 to 76 cut
  before it is attached: the unformatted text of \<open>evt_long\<close> is 5023 bytes long, and
  the attached \<^verbatim>\<open>db.statement\<close> is not that text.
\<close>

theorem AfterQuery_statement_not_whole_rendering:
  "span_IsRecording st0 (SpanFromContext ctx_query) \<and>
   operation_of evt_long = InsertOp \<and>
   UnformattedQuery evt_long = Inr long_query \<and>
   length long_query = 5023 \<and>
   values_of ''db.statement''
       (attributes_set (AfterQuery_calls TrimSpace_ascii stack0 st0 ctx_query evt_long))
     = [StringValue (''INSERT INTO t VALUES ('' @ replicate 4978 (CHR ''?''))] \<and>
   values_of ''db.statement''
       (attributes_set (AfterQuery_calls TrimSpace_ascii stack0 st0 ctx_query evt_long))
     \<noteq> [StringValue long_query]"
proof -
  have r: "span_IsRecording st0 (SpanFromContext ctx_query)"
    by (rule st0_recording)
  have o: "operation_of evt_long = InsertOp"
    by (simp add: operation_of_def InsertOp_def evt_long_def evt_insert_def)
  have u: "UnformattedQuery evt_long = Inr long_query"
    by (simp add: evt_long_def)
  have q: "rendering evt_long = Inr long_query"
    using o u by (simp add: rendering_def)
  have "length (take 5000 long_query) \<noteq> length long_query"
    by (simp add: length_long_query)
  then have n: "take 5000 long_query \<noteq> long_query"
    by metis
  have t: "take 5000 long_query = ''INSERT INTO t VALUES ('' @ replicate 4978 (CHR ''?'')"
    by (simp add: long_query_def)
  have v: "values_of ''db.statement''
       (attributes_set (AfterQuery_calls TrimSpace_ascii stack0 st0 ctx_query evt_long))
     = [StringValue (take 5000 long_query)]"
    by (simp add: AfterQuery_calls_rendered [OF r q] values_of_statement label_Int_def
        split: option.splits)
  show ?thesis
    using r o u n v length_long_query by (simp add: t)
qed

text \<open>
  C2, amended: for an insert the statement text attached to the span is the first 5000
  bytes of the unformatted rendering of the query (all of it when it has no more than
  5000), and for every other operation, an unrecognised or absent one included, the
  first 5000 bytes of the formatted rendering.
\<close>

theorem AfterQuery_statement_rendering:
  assumes "span_IsRecording st (SpanFromContext ctx)"
  shows "(operation_of evt = InsertOp \<and> UnformattedQuery evt = Inr q \<longrightarrow>
           values_of ''db.statement''
               (attributes_set (AfterQuery_calls TrimSpace stack st ctx evt))
             = [StringValue (take 5000 q)]) \<and>
         (operation_of evt \<noteq> InsertOp \<and> FormattedQuery evt = Inr q \<longrightarrow>
           values_of ''db.statement''
               (attributes_set (AfterQuery_calls TrimSpace stack st ctx evt))
             = [StringValue (take 5000 q)]) \<and>
         (length q \<le> 5000 \<longrightarrow> take 5000 q = q)"
proof -
  have "values_of ''db.statement''
            (attributes_set (AfterQuery_calls TrimSpace stack st ctx evt))
          = [StringValue (take 5000 q)]" if "rendering evt = Inr q"
    using assms that
    by (simp add: AfterQuery_calls_rendered values_of_statement label_Int_def
        split: option.splits)
  then show ?thesis
    by (simp add: rendering_def)
qed

theorem AfterQuery_statement_rendering_witness:
  "span_IsRecording st0 (SpanFromContext ctx_query) \<and>
   operation_of evt_insert = InsertOp \<and>
   UnformattedQuery evt_insert = Inr ''INSERT INTO orders (qty) VALUES (?)'' \<and>
   values_of ''db.statement''
       (attributes_set (AfterQuery_calls TrimSpace_ascii stack0 st0 ctx_query evt_insert))
     = [StringValue ''INSERT INTO orders (qty) VALUES (?)''] \<and>
   operation_of evt_select \<noteq> InsertOp \<and>
   FormattedQuery evt_select = Inr ''SELECT * FROM orders WHERE id = 7'' \<and>
   values_of ''db.statement''
       (attributes_set (AfterQuery_calls TrimSpace_ascii stack0 st0 ctx_query evt_select))
     = [StringValue ''SELECT * FROM orders WHERE id = 7'']"
proof -
  have r: "span_IsRecording st0 (SpanFromContext ctx_query)"
    by (rule st0_recording)
  have i: "operation_of evt_insert = InsertOp"
    "UnformattedQuery evt_insert = Inr ''INSERT INTO orders (qty) VALUES (?)''"
    by (simp_all add: operation_of_def InsertOp_def evt_insert_def)
  have s: "operation_of evt_select \<noteq> InsertOp"
    "FormattedQuery evt_select = Inr ''SELECT * FROM orders WHERE id = 7''"
    by (simp_all add: operation_of_def InsertOp_def evt_select_def)
  show ?thesis
    using r i s
      AfterQuery_statement_rendering [OF r, of evt_insert
        "''INSERT INTO orders (qty) VALUES (?)''" TrimSpace_ascii stack0]
      AfterQuery_statement_rendering [OF r, of evt_select
        "''SELECT * FROM orders WHERE id = 7''" TrimSpace_ascii stack0]
    by simp
qed


text \<open>
  C3. An operation kind counts as captured when the variable \<^verbatim>\<open>operation\<close> is not empty
  after lines 43 to 47, which is the test of line 64. Then the span is named once, with
  the operation kind itself. Otherwise, if the rendered text contains a space, the span
  is named once, with the trimmed text before the first space, cut at 20 bytes; if the
  text contains no space, no name is set.
\<close>

theorem AfterQuery_span_name:
  assumes "span_IsRecording st (SpanFromContext ctx)"
    and "rendering evt = Inr q"
  shows "(operation_of evt \<noteq> '''' \<longrightarrow>
            names_set (AfterQuery_calls TrimSpace stack st ctx evt) = [operation_of evt]) \<and>
         (operation_of evt = '''' \<and> CHR '' '' \<in> set q \<longrightarrow>
            names_set (AfterQuery_calls TrimSpace stack st ctx evt)
              = [TrimSpace (take 20 (takeWhile (\<lambda>c. c \<noteq> CHR '' '') q))]) \<and>
         (operation_of evt = '''' \<and> CHR '' '' \<notin> set q \<longrightarrow>
            names_set (AfterQuery_calls TrimSpace stack st ctx evt) = [])"
  using assms by (simp add: AfterQuery_calls_rendered split: option.splits)

theorem AfterQuery_span_name_witness:
  "span_IsRecording st0 (SpanFromContext ctx_query) \<and>
   rendering evt_insert = Inr ''INSERT INTO orders (qty) VALUES (?)'' \<and>
   operation_of evt_insert = ''INSERT'' \<and>
   names_set (AfterQuery_calls TrimSpace_ascii stack0 st0 ctx_query evt_insert) = [''INSERT''] \<and>
   rendering evt_select = Inr ''SELECT * FROM orders WHERE id = 7'' \<and>
   operation_of evt_select = '''' \<and>
   names_set (AfterQuery_calls TrimSpace_ascii stack0 st0 ctx_query evt_select) = [''SELECT''] \<and>
   rendering evt_vacuum = Inr ''VACUUM(FULL,ANALYZE,VERBOSE) orders'' \<and>
   operation_of evt_vacuum = '''' \<and>
   names_set (AfterQuery_calls TrimSpace_ascii stack0 st0 ctx_query evt_vacuum)
     = [''VACUUM(FULL,ANALYZE,''] \<and>
   rendering evt_begin = Inr ''BEGIN'' \<and>
   operation_of evt_begin = '''' \<and>
   names_set (AfterQuery_calls TrimSpace_ascii stack0 st0 ctx_query evt_begin) = []"
proof -
  have r: "span_IsRecording st0 (SpanFromContext ctx_query)"
    by (rule st0_recording)
  have o: "operation_of evt_insert = ''INSERT''" "operation_of evt_select = ''''"
    "operation_of evt_vacuum = ''''" "operation_of evt_begin = ''''"
    by (simp_all add: operation_of_def evt_insert_def evt_select_def evt_vacuum_def
        evt_begin_def)
  have q: "rendering evt_insert = Inr ''INSERT INTO orders (qty) VALUES (?)''"
    "rendering evt_select = Inr ''SELECT * FROM orders WHERE id = 7''"
    "rendering evt_vacuum = Inr ''VACUUM(FULL,ANALYZE,VERBOSE) orders''"
    "rendering evt_begin = Inr ''BEGIN''"
    by (simp_all add: rendering_def o InsertOp_def)
      (simp_all add: evt_insert_def evt_select_def evt_vacuum_def evt_begin_def)
  show ?thesis
    using r o q
      AfterQuery_span_name [OF r q(1), of TrimSpace_ascii stack0]
      AfterQuery_span_name [OF r q(2), of TrimSpace_ascii stack0]
      AfterQuery_span_name [OF r q(3), of TrimSpace_ascii stack0]
      AfterQuery_span_name [OF r q(4), of TrimSpace_ascii stack0]
    by (simp add: TrimSpace_ascii_def asciiSpace_def)
qed

text \<open>
  C4. The \<^verbatim>\<open>db.statement\<close> attribute attached to the span is the first \<open>min L 5000\<close>
  bytes of the rendered query text of length \<open>L\<close>: all of a text of at most 5000 bytes,
  and never more than the text.
\<close>

theorem AfterQuery_statement_truncated:
  assumes "span_IsRecording st (SpanFromContext ctx)"
    and "rendering evt = Inr q"
  shows "values_of ''db.statement''
             (attributes_set (AfterQuery_calls TrimSpace stack st ctx evt))
           = [StringValue (take (min (length q) 5000) q)] \<and>
         length (take (min (length q) 5000) q) = min (length q) 5000 \<and>
         (length q \<le> 5000 \<longrightarrow> take (min (length q) 5000) q = q)"
proof -
  have "take (min (length q) 5000) q = take 5000 q"
    by (simp add: min_def)
  with assms show ?thesis
    by (simp add: AfterQuery_calls_rendered values_of_statement label_Int_def
        split: option.splits)
qed

theorem AfterQuery_statement_truncated_witness:
  "span_IsRecording st0 (SpanFromContext ctx_query) \<and>
   rendering evt_select = Inr ''SELECT * FROM orders WHERE id = 7'' \<and>
   values_of ''db.statement''
       (attributes_set (AfterQuery_calls TrimSpace_ascii stack0 st0 ctx_query evt_select))
     = [StringValue ''SELECT * FROM orders WHERE id = 7''] \<and>
   rendering evt_long = Inr long_query \<and>
   length long_query = 5023 \<and>
   values_of ''db.statement''
       (attributes_set (AfterQuery_calls TrimSpace_ascii stack0 st0 ctx_query evt_long))
     = [StringValue (take 5000 long_query)] \<and>
   length (take 5000 long_query) = 5000"
proof -
  have r: "span_IsRecording st0 (SpanFromContext ctx_query)"
    by (rule st0_recording)
  have q: "rendering evt_select = Inr ''SELECT * FROM orders WHERE id = 7''"
    "rendering evt_long = Inr long_query"
    by (simp_all add: rendering_def operation_of_def InsertOp_def evt_select_def evt_long_def
        evt_insert_def)
  show ?thesis
    using r q
      AfterQuery_statement_truncated [OF r q(1), of TrimSpace_ascii stack0]
      AfterQuery_statement_truncated [OF r q(2), of TrimSpace_ascii stack0]
    by (simp add: length_long_query)
qed

text \<open>
  C5. When the span of the context is not recording, \<^verbatim>\<open>BeforeQuery\<close> returns the context
  it was given and a nil error and starts no span: the store is as it was. \<^verbatim>\<open>AfterQuery\<close>
  returns nil and calls nothing on any span, whatever the event holds.
\<close>

theorem hooks_noop_when_not_recording:
  assumes "\<not> span_IsRecording st (SpanFromContext ctx)"
  shows "BeforeQuery sampled st ctx evt = ((ctx, None), st) \<and>
         AfterQuery TrimSpace stack st ctx evt' = (None, st) \<and>
         AfterQuery_calls TrimSpace stack st ctx evt' = []"
  using assms by (simp add: BeforeQuery_def AfterQuery_def AfterQuery_calls_def)

theorem hooks_noop_when_not_recording_witness:
  "\<not> span_IsRecording st0 (SpanFromContext ctx_dropped) \<and>
   BeforeQuery True st0 ctx_dropped evt_select = ((ctx_dropped, None), st0) \<and>
   AfterQuery TrimSpace_ascii stack0 st0 ctx_dropped evt_refused = (None, st0) \<and>
   AfterQuery_calls TrimSpace_ascii stack0 st0 ctx_dropped evt_refused = [] \<and>
   \<not> span_IsRecording st0 (SpanFromContext ctx_plain) \<and>
   BeforeQuery True st0 ctx_plain evt_select = ((ctx_plain, None), st0) \<and>
   AfterQuery TrimSpace_ascii stack0 st0 ctx_plain evt_broken = (None, st0) \<and>
   AfterQuery_calls TrimSpace_ascii stack0 st0 ctx_plain evt_broken = []"
  using st0_recording(2,3)
    hooks_noop_when_not_recording [OF st0_recording(2), of True evt_select TrimSpace_ascii
      stack0 evt_refused]
    hooks_noop_when_not_recording [OF st0_recording(3), of True evt_select TrimSpace_ascii
      stack0 evt_broken]
  by simp

text \<open>
  C6. \<^verbatim>\<open>BeforeQuery\<close> returns a nil error for every input. \<^verbatim>\<open>AfterQuery\<close> returns a non-nil
  error exactly when the span is recording and the rendering that the operation selects
  (unformatted for an insert, formatted otherwise) fails, and the error it returns is
  that rendering error.
\<close>

theorem hooks_only_rendering_error:
  "snd (fst (BeforeQuery sampled st ctx evt)) = None \<and>
   (fst (AfterQuery TrimSpace stack st ctx evt) = Some e \<longleftrightarrow>
      span_IsRecording st (SpanFromContext ctx) \<and> rendering evt = Inl e) \<and>
   (fst (AfterQuery TrimSpace stack st ctx evt) \<noteq> None \<longleftrightarrow>
      span_IsRecording st (SpanFromContext ctx) \<and> isl (rendering evt))"
proof (cases "span_IsRecording st (SpanFromContext ctx)")
  case True
  then show ?thesis
    by (auto simp: BeforeQuery_def tracer_Start_def AfterQuery_recording split: sum.splits)
next
  case False
  then show ?thesis
    by (simp add: BeforeQuery_def AfterQuery_def)
qed

theorem hooks_only_rendering_error_witness:
  "snd (fst (BeforeQuery True st0 ctx_query evt_broken)) = None \<and>
   span_IsRecording st0 (SpanFromContext ctx_query) \<and>
   rendering evt_broken = Inl (OtherError ''pg: cannot format query'') \<and>
   fst (AfterQuery TrimSpace_ascii stack0 st0 ctx_query evt_broken)
     = Some (OtherError ''pg: cannot format query'') \<and>
   rendering evt_broken_insert = Inl (OtherError ''pg: cannot render query'') \<and>
   fst (AfterQuery TrimSpace_ascii stack0 st0 ctx_query evt_broken_insert)
     = Some (OtherError ''pg: cannot render query'') \<and>
   rendering evt_refused = Inr ''SELECT * FROM orders WHERE id = 7'' \<and>
   fst (AfterQuery TrimSpace_ascii stack0 st0 ctx_query evt_refused) = None \<and>
   fst (AfterQuery TrimSpace_ascii stack0 st0 ctx_plain evt_broken) = None"
proof -
  have q: "rendering evt_broken = Inl (OtherError ''pg: cannot format query'')"
    "rendering evt_broken_insert = Inl (OtherError ''pg: cannot render query'')"
    "rendering evt_refused = Inr ''SELECT * FROM orders WHERE id = 7''"
    by (simp_all add: rendering_def operation_of_def InsertOp_def evt_broken_def
        evt_broken_insert_def evt_refused_def evt_select_def evt_insert_def)
  show ?thesis
    using st0_recording q
      hooks_only_rendering_error [of True st0 ctx_query evt_broken TrimSpace_ascii stack0
        "OtherError ''pg: cannot format query''"]
      hooks_only_rendering_error [of True st0 ctx_query evt_broken_insert TrimSpace_ascii stack0
        "OtherError ''pg: cannot render query''"]
      hooks_only_rendering_error [of True st0 ctx_query evt_refused TrimSpace_ascii stack0]
      hooks_only_rendering_error [of True st0 ctx_plain evt_broken TrimSpace_ascii stack0]
    by simp
qed


text \<open>
  C7. When the event carries no error and a result is present, the \<^verbatim>\<open>db.rows_affected\<close>
  attribute is the result's rows-affected count, or its rows-returned count when the
  rows-affected count is zero. When the event carries an error or has no result, no
  \<^verbatim>\<open>db.rows_affected\<close> attribute is attached.
\<close>

theorem AfterQuery_rows_affected:
  assumes "span_IsRecording st (SpanFromContext ctx)"
    and "rendering evt = Inr q"
  shows "(Err evt = None \<and> Result evt = Some res \<longrightarrow>
           values_of ''db.rows_affected''
               (attributes_set (AfterQuery_calls TrimSpace stack st ctx evt))
             = [IntValue (if RowsAffected res = 0 then RowsReturned res
                          else RowsAffected res)]) \<and>
         (Err evt \<noteq> None \<or> Result evt = None \<longrightarrow>
           values_of ''db.rows_affected''
               (attributes_set (AfterQuery_calls TrimSpace stack st ctx evt)) = [])"
  using assms
  by (auto simp: AfterQuery_calls_rendered values_of_rows_affected label_Int_def
      split: option.splits)

theorem AfterQuery_rows_affected_witness:
  "span_IsRecording st0 (SpanFromContext ctx_query) \<and>
   rendering evt_select = Inr ''SELECT * FROM orders WHERE id = 7'' \<and>
   Err evt_select = None \<and>
   Result evt_select = Some \<lparr>RowsAffected = 0, RowsReturned = 3\<rparr> \<and>
   values_of ''db.rows_affected''
       (attributes_set (AfterQuery_calls TrimSpace_ascii stack0 st0 ctx_query evt_select))
     = [IntValue 3] \<and>
   rendering evt_insert = Inr ''INSERT INTO orders (qty) VALUES (?)'' \<and>
   Err evt_insert = None \<and>
   Result evt_insert = Some \<lparr>RowsAffected = 1, RowsReturned = 0\<rparr> \<and>
   values_of ''db.rows_affected''
       (attributes_set (AfterQuery_calls TrimSpace_ascii stack0 st0 ctx_query evt_insert))
     = [IntValue 1] \<and>
   rendering evt_norows = Inr ''SELECT * FROM orders WHERE id = 7'' \<and>
   Err evt_norows \<noteq> None \<and>
   values_of ''db.rows_affected''
       (attributes_set (AfterQuery_calls TrimSpace_ascii stack0 st0 ctx_query evt_norows))
     = [] \<and>
   rendering evt_begin = Inr ''BEGIN'' \<and>
   Result evt_begin = None \<and>
   values_of ''db.rows_affected''
       (attributes_set (AfterQuery_calls TrimSpace_ascii stack0 st0 ctx_query evt_begin))
     = []"
proof -
  have r: "span_IsRecording st0 (SpanFromContext ctx_query)"
    by (rule st0_recording)
  have q: "rendering evt_select = Inr ''SELECT * FROM orders WHERE id = 7''"
    "rendering evt_insert = Inr ''INSERT INTO orders (qty) VALUES (?)''"
    "rendering evt_norows = Inr ''SELECT * FROM orders WHERE id = 7''"
    "rendering evt_begin = Inr ''BEGIN''"
    by (simp_all add: rendering_def operation_of_def InsertOp_def evt_select_def
        evt_insert_def evt_norows_def evt_begin_def)
  have e: "Err evt_select = None"
    "Result evt_select = Some \<lparr>RowsAffected = 0, RowsReturned = 3\<rparr>"
    "Err evt_insert = None"
    "Result evt_insert = Some \<lparr>RowsAffected = 1, RowsReturned = 0\<rparr>"
    "Err evt_norows \<noteq> None"
    "Result evt_begin = None"
    by (simp_all add: evt_select_def evt_insert_def evt_norows_def evt_begin_def)
  show ?thesis
    using r q e
      AfterQuery_rows_affected [OF r q(1), of "\<lparr>RowsAffected = 0, RowsReturned = 3\<rparr>"
        TrimSpace_ascii stack0]
      AfterQuery_rows_affected [OF r q(2), of "\<lparr>RowsAffected = 1, RowsReturned = 0\<rparr>"
        TrimSpace_ascii stack0]
      AfterQuery_rows_affected [OF r q(3), of "\<lparr>RowsAffected = 0, RowsReturned = 0\<rparr>" TrimSpace_ascii
        stack0]
      AfterQuery_rows_affected [OF r q(4), of "\<lparr>RowsAffected = 0, RowsReturned = 0\<rparr>" TrimSpace_ascii
        stack0]
    by simp
qed

text \<open>
  C8. Once the span is found to be recording, the invocation calls \<^verbatim>\<open>End\<close> on it exactly
  once, as its last call, on every exit path: on the normal path and when a rendering
  error is returned early.
\<close>

theorem AfterQuery_ends_span_once:
  assumes "span_IsRecording st (SpanFromContext ctx)"
  shows "count_list (AfterQuery_calls TrimSpace stack st ctx evt) End = 1 \<and>
         last (AfterQuery_calls TrimSpace stack st ctx evt) = End"
proof (cases "rendering evt")
  case (Inl e)
  with assms show ?thesis
    by (simp add: AfterQuery_calls_failed)
next
  case (Inr q)
  with assms show ?thesis
    by (simp add: AfterQuery_calls_rendered split: option.splits)
qed

theorem AfterQuery_ends_span_once_witness:
  "span_IsRecording st0 (SpanFromContext ctx_query) \<and>
   fst (AfterQuery TrimSpace_ascii stack0 st0 ctx_query evt_select) = None \<and>
   count_list (AfterQuery_calls TrimSpace_ascii stack0 st0 ctx_query evt_select) End = 1 \<and>
   last (AfterQuery_calls TrimSpace_ascii stack0 st0 ctx_query evt_select) = End \<and>
   fst (AfterQuery TrimSpace_ascii stack0 st0 ctx_query evt_broken)
     = Some (OtherError ''pg: cannot format query'') \<and>
   count_list (AfterQuery_calls TrimSpace_ascii stack0 st0 ctx_query evt_broken) End = 1 \<and>
   last (AfterQuery_calls TrimSpace_ascii stack0 st0 ctx_query evt_broken) = End"
proof -
  have r: "span_IsRecording st0 (SpanFromContext ctx_query)"
    by (rule st0_recording)
  have q: "rendering evt_select = Inr ''SELECT * FROM orders WHERE id = 7''"
    "rendering evt_broken = Inl (OtherError ''pg: cannot format query'')"
    by (simp_all add: rendering_def operation_of_def InsertOp_def evt_select_def
        evt_broken_def)
  have "fst (AfterQuery TrimSpace_ascii stack0 st0 ctx_query evt_select) = None"
    "fst (AfterQuery TrimSpace_ascii stack0 st0 ctx_query evt_broken)
       = Some (OtherError ''pg: cannot format query'')"
    by (simp_all add: AfterQuery_recording [OF r] q)
  then show ?thesis
    using r
      AfterQuery_ends_span_once [OF r, of TrimSpace_ascii stack0 evt_select]
      AfterQuery_ends_span_once [OF r, of TrimSpace_ascii stack0 evt_broken]
    by simp
qed

text \<open>
  C9. As the claim has it, the resolver visits the captured frames (at most 16, from the
  caller of \<^verbatim>\<open>AfterQuery\<close> outwards) innermost first and returns the first frame whose
  function name does not contain the namespace, or the outermost captured frame when
  every name contains it. The loop of the source leaves as soon as \<^verbatim>\<open>Next\<close> reports
  \<^verbatim>\<open>more = false\<close>, before it assigns the frame returned with it, so it never visits the
  outermost captured frame. On \<open>stack_deep\<close> sixteen frames are captured; the first one
  outside the namespace is the sixteenth, the application's \<^verbatim>\<open>store.(*Orders).Load\<close>, and
  \<^verbatim>\<open>funcFileLine\<close> returns the fifteenth, a frame of the ORM.
\<close>

theorem funcFileLine_misses_last_captured_frame:
  "length (runtime_Callers 3 depth stack_deep) = 16 \<and>
   spec_locate ''github.com/go-pg/pg'' (runtime_Callers 3 depth stack_deep)
     = Some \<lparr>Function = ''example.com/shop/store.(*Orders).Load'',
              File = ''orders.go'', Line = 42\<rparr> \<and>
   funcFileLine ''github.com/go-pg/pg'' stack_deep = (''orm.walk'', ''util.go'', 88)"
  by code_simp

text \<open>
  C10. When the rendering fails, the invocation returns the rendering error and the only
  call it makes on the span is \<^verbatim>\<open>End\<close>: no name is set, no attribute is attached, no
  status is set and no error is recorded.
\<close>

theorem AfterQuery_rendering_error_only_ends:
  assumes "span_IsRecording st (SpanFromContext ctx)"
    and "rendering evt = Inl e"
  shows "AfterQuery TrimSpace stack st ctx evt
           = (Some e, span_call (SpanFromContext ctx) End st) \<and>
         AfterQuery_calls TrimSpace stack st ctx evt = [End] \<and>
         names_set (AfterQuery_calls TrimSpace stack st ctx evt) = [] \<and>
         attributes_set (AfterQuery_calls TrimSpace stack st ctx evt) = [] \<and>
         statuses_set (AfterQuery_calls TrimSpace stack st ctx evt) = [] \<and>
         errors_recorded (AfterQuery_calls TrimSpace stack st ctx evt) = []"
  using assms by (simp add: AfterQuery_calls_failed AfterQuery_recording)

theorem AfterQuery_rendering_error_only_ends_witness:
  "span_IsRecording st0 (SpanFromContext ctx_query) \<and>
   rendering evt_broken = Inl (OtherError ''pg: cannot format query'') \<and>
   AfterQuery TrimSpace_ascii stack0 st0 ctx_query evt_broken
     = (Some (OtherError ''pg: cannot format query''),
        [\<lparr>IsRecording = True, startName = ''GET /orders'', calls = [SetName ''orders'']\<rparr>,
         \<lparr>IsRecording = True, startName = '''', calls = [End]\<rparr>,
         \<lparr>IsRecording = False, startName = '''', calls = []\<rparr>]) \<and>
   AfterQuery_calls TrimSpace_ascii stack0 st0 ctx_query evt_broken = [End] \<and>
   rendering evt_broken_insert = Inl (OtherError ''pg: cannot render query'') \<and>
   AfterQuery_calls TrimSpace_ascii stack0 st0 ctx_query evt_broken_insert = [End]"
proof -
  have r: "span_IsRecording st0 (SpanFromContext ctx_query)"
    by (rule st0_recording)
  have q: "rendering evt_broken = Inl (OtherError ''pg: cannot format query'')"
    "rendering evt_broken_insert = Inl (OtherError ''pg: cannot render query'')"
    by (simp_all add: rendering_def operation_of_def InsertOp_def evt_select_def
        evt_broken_def evt_broken_insert_def evt_insert_def)
  have s: "span_call (SpanFromContext ctx_query) End st0
     = [\<lparr>IsRecording = True, startName = ''GET /orders'', calls = [SetName ''orders'']\<rparr>,
        \<lparr>IsRecording = True, startName = '''', calls = [End]\<rparr>,
        \<lparr>IsRecording = False, startName = '''', calls = []\<rparr>]"
    by (simp add: span_call_def SpanFromContext_def ctx_query_def st0_def)
  show ?thesis
    using r q s
      AfterQuery_rendering_error_only_ends [OF r q(1), of TrimSpace_ascii stack0]
      AfterQuery_rendering_error_only_ends [OF r q(2), of TrimSpace_ascii stack0]
    by simp
qed


end
